theory Spec2Isabelle
  imports
    Main
    "HOL-Library.Char_ord"
    "HOL-Library.List_Lexorder"
    "HOL-Library.Product_Lexorder"
    "HOL-Library.Sublist"
    "HOL-Library.Multiset"
begin

section \<open>The contextual search pipeline of backend/services/gemini.py\<close>

text \<open>
  The development embeds \<^verbatim>\<open>mcp_search\<close> and its helpers
  \<^verbatim>\<open>_check_memory\<close>, \<^verbatim>\<open>_store_memory\<close> and
  \<^verbatim>\<open>_sort_by_relevance\<close>. Isabelle names start with a letter, so the
  helpers lose their leading underscore.

  Python values are modelled with the types the pipeline gives them: a string is a
  \<^typ>\<open>string\<close>, a list of strings a \<^typ>\<open>string list\<close>. The three collaborators
  (text generation, search index, the file \<^verbatim>\<open>memory_store.json\<close>) and the clock are
  inputs of a run, collected in an environment. An exception is a value: the body of a
  \<^verbatim>\<open>try\<close> block returns \<open>Inl\<close> of the exception or \<open>Inr\<close> of its result, and
  the \<^verbatim>\<open>except\<close> clause is the branch for \<open>Inl\<close>.
\<close>

subsection \<open>Python string operations\<close>

text \<open>
  Characters are bytes; \<^verbatim>\<open>str.lower\<close> and the whitespace test are modelled on
  ASCII, where they agree with Python, and leave every other byte alone.
\<close>

definition lower_char :: "char \<Rightarrow> char" where
  "lower_char c =
     (if CHR ''A'' \<le> c \<and> c \<le> CHR ''Z'' then char_of (of_char c + (32::nat)) else c)"

definition py_lower :: "string \<Rightarrow> string" where
  "py_lower s = map lower_char s"

text \<open>\<^verbatim>\<open>str.isspace\<close> on ASCII: tab, line feed, vertical tab, form feed, carriage
  return, the four separators 0x1c to 0x1f, and the space.\<close>

definition is_space :: "char \<Rightarrow> bool" where
  "is_space c =
     (let n = (of_char c :: nat) in (9 \<le> n \<and> n \<le> 13) \<or> (28 \<le> n \<and> n \<le> 32))"

text \<open>\<^verbatim>\<open>s.strip()\<close>\<close>

definition py_strip :: "string \<Rightarrow> string" where
  "py_strip s = rev (dropWhile is_space (rev (dropWhile is_space s)))"

text \<open>\<^verbatim>\<open>s.split()\<close>: the maximal runs of non-whitespace characters, in order.
  The first argument is the token being read.\<close>

fun split_from :: "string \<Rightarrow> string \<Rightarrow> string list" where
  "split_from w [] = (if w = [] then [] else [w])"
| "split_from w (c # cs) =
     (if is_space c then (if w = [] then split_from [] cs else w # split_from [] cs)
      else split_from (w @ [c]) cs)"

definition py_split :: "string \<Rightarrow> string list" where
  "py_split s = split_from [] s"

text \<open>\<^verbatim>\<open>a in b\<close> on strings: \<open>a\<close> occurs in \<open>b\<close> as a contiguous substring.\<close>

fun py_in :: "string \<Rightarrow> string \<Rightarrow> bool" where
  "py_in a [] = (a = [])"
| "py_in a (c # cs) = (prefix a (c # cs) \<or> py_in a cs)"

text \<open>\<^verbatim>\<open>sep.join(xs)\<close>\<close>

fun py_join :: "string \<Rightarrow> string list \<Rightarrow> string" where
  "py_join sep [] = []"
| "py_join sep [x] = x"
| "py_join sep (x # y # ys) = x @ sep @ py_join sep (y # ys)"

text \<open>\<^verbatim>\<open>str(n)\<close> for a length: the decimal digits of a natural number.\<close>

definition digit_char :: "nat \<Rightarrow> char" where
  "digit_char d = char_of (48 + d)"

function str_nat :: "nat \<Rightarrow> string" where
  "str_nat n = (if n < 10 then [digit_char n] else str_nat (n div 10) @ [digit_char (n mod 10)])"
  by pat_completeness auto
termination
  by (relation "measure (\<lambda>n. n)") auto

declare str_nat.simps [simp del]

subsection \<open>Data model\<close>

text \<open>A Python value read with \<^verbatim>\<open>d.get(key, default)\<close>: the key may be missing.\<close>

definition dict_get :: "'a option \<Rightarrow> 'a \<Rightarrow> 'a" where
  "dict_get v d = (case v of None \<Rightarrow> d | Some x \<Rightarrow> x)"

text \<open>A hit as the search index returns it (a JSON object: every key may be missing), and
  the \<^verbatim>\<open>clean_hit\<close> dictionary the pipeline builds from it.\<close>

record raw_hit =
  raw_objectID :: "string option"
  raw_title :: "string option"
  raw_summary :: "string option"
  raw_tags :: "string list option"
  raw_timestamp :: "string option"

record hit =
  hit_objectID :: string
  hit_title :: string
  hit_summary :: string
  hit_tags :: "string list"
  hit_timestamp :: string

text \<open>The exceptions the pipeline meets.\<close>

datatype py_exception =
    RequestException
  | JSONDecodeError
  | AttributeError
  | KeyError
  | OSError

text \<open>An entry of \<^verbatim>\<open>memory_store.json\<close>: a JSON object, in which each of the four
  keys \<^verbatim>\<open>_store_memory\<close> writes may be missing.\<close>

record memory_entry =
  mem_query :: "string option"
  mem_search_terms :: "string list option"
  mem_summary :: "string option"
  mem_timestamp :: "string option"

text \<open>
  The file \<^verbatim>\<open>memory_store.json\<close>: missing, present with no bytes (as opening it
  for writing leaves it), present with other content that is not JSON, or holding a JSON
  object with the list of entries under the key \<^verbatim>\<open>queries\<close>.
\<close>

datatype memory_file = Absent | Empty_File | Corrupt | Log "memory_entry list"

text \<open>The dictionary \<^verbatim>\<open>response\<close> that \<^verbatim>\<open>mcp_search\<close> returns.\<close>

record orchestration_response =
  original_query :: string
  search_terms :: "string list"
  stage1_response :: string
  algolia_hits :: "hit list"
  final_summary :: string
  memory_used :: bool
  timestamp :: string

subsection \<open>The collaborators\<close>

text \<open>
  Stage 1 asks the text generation service for a JSON object. The reply is one of: the
  request fails (no answer, an error status, an answer without the expected shape); the
  text of the answer is not JSON; the JSON value is not an object; the JSON value is an
  object. In an object each key may be missing; the value of \<^verbatim>\<open>is_search\<close> is used
  as a string inside the \<^verbatim>\<open>try\<close> block of stage 1, so it has a third case, a
  value that is not a string.
\<close>

datatype is_search_field = Is_Search_Missing | Is_Search_Text string | Is_Search_Not_Text

record parsed_intent =
  p_is_search :: is_search_field
  p_search_terms :: "string list option"
  p_intent :: "string option"
  p_response :: "string option"

datatype intent_reply =
    Intent_Request_Failed
  | Intent_Not_JSON
  | Intent_Not_Object
  | Intent_Parsed parsed_intent

text \<open>Stage 4 asks it for a text; the reply is the text found in the answer, or a failure.
  A run sends one prompt per stage, so the reply to it is a component of the environment;
  the theorems hold for every reply, whatever the prompt was.\<close>

datatype synthesis_reply = Synthesis_Failed | Synthesis_Text string

text \<open>
  The search index answers the \<open>n\<close>-th query of a run, for a term and a filter string,
  with a list \<^verbatim>\<open>results\<close> of hit lists, or fails (\<open>None\<close>).
\<close>

type_synonym index_service = "nat \<Rightarrow> string \<Rightarrow> string \<Rightarrow> raw_hit list list option"

record env =
  gen_intent :: intent_reply
  gen_synthesis :: synthesis_reply
  index :: index_service
  memory :: memory_file
  clock_start :: string
  clock_store :: string

text \<open>What a run does to the outside, in order.\<close>

datatype event =
    Intent_Call
  | Index_Query string string
  | Synthesis_Call
  | Memory_Write

text \<open>\<open>Memory_Write\<close> stands for \<^verbatim>\<open>open("memory_store.json", "w")\<close>: the file is
  created or emptied, whatever is written to it afterwards.\<close>

record run =
  response :: orchestration_response
  memory_after :: memory_file
  events :: "event list"

subsection \<open>\<^verbatim>\<open>_sort_by_relevance\<close>\<close>

text \<open>The loop of \<^verbatim>\<open>calculate_relevance\<close>, with \<^verbatim>\<open>relevance_score\<close> as the
  last argument.\<close>

fun relevance_loop :: "hit \<Rightarrow> string list \<Rightarrow> nat \<Rightarrow> nat" where
  "relevance_loop h [] relevance_score = relevance_score"
| "relevance_loop h (t # ts) relevance_score =
     (let term_lower = py_lower t;
          s1 = (if py_in term_lower (py_lower (hit_title h))
                then relevance_score + 3 else relevance_score);
          s2 = (if py_in term_lower (py_lower (hit_summary h)) then s1 + 2 else s1);
          s3 = (if list_ex (\<lambda>tag. py_in term_lower (py_lower tag)) (hit_tags h)
                then s2 + 1 else s2)
      in relevance_loop h ts s3)"

definition calculate_relevance :: "string list \<Rightarrow> hit \<Rightarrow> nat" where
  "calculate_relevance terms h = relevance_loop h terms 0"

definition sort_key_of :: "string list \<Rightarrow> hit \<Rightarrow> nat \<times> string" where
  "sort_key_of terms x = (calculate_relevance terms x, hit_timestamp x)"

text \<open>
  \<^verbatim>\<open>sorted(hits, key=..., reverse=True)\<close>: Python reverses the list, sorts it
  stably in ascending order of the key, and reverses the result. Keys are pairs, compared
  lexicographically; strings are compared character by character.
\<close>

definition sort_by_relevance :: "hit list \<Rightarrow> string list \<Rightarrow> hit list" where
  "sort_by_relevance hits terms = rev (sort_key (sort_key_of terms) (rev hits))"

subsection \<open>\<^verbatim>\<open>_check_memory\<close> and \<^verbatim>\<open>_store_memory\<close>\<close>

text \<open>
  Both helpers are functions of the module, so the name \<^verbatim>\<open>pyjson\<close> in their bodies
  is the module that line 5 imports (\<^verbatim>\<open>import pyjson\<close>). It is not the JSON module:
  \<^verbatim>\<open>import json as pyjson\<close> stands inside \<^verbatim>\<open>summarize\<close> and
  \<^verbatim>\<open>mcp_search\<close> and binds the name in those two functions only. The package
  \<^verbatim>\<open>pyjson\<close> is not part of the repository; it defines neither \<^verbatim>\<open>load\<close> nor
  \<^verbatim>\<open>dump\<close>, so \<^verbatim>\<open>pyjson.load(f)\<close> and \<^verbatim>\<open>pyjson.dump(memory, f, indent=2)\<close>
  raise \<^verbatim>\<open>AttributeError\<close> before anything is read or written.

  The bodies of the helpers take the two functions as parameters; the helpers of the
  program are the bodies with \<open>pyjson_load\<close> and \<open>pyjson_dump\<close>.
\<close>

type_synonym loader = "memory_file \<Rightarrow> py_exception + memory_entry list"

type_synonym dumper = "memory_entry list \<Rightarrow> py_exception + memory_file"

definition pyjson_load :: loader where
  "pyjson_load f = Inl AttributeError"

definition pyjson_dump :: dumper where
  "pyjson_dump queries = Inl AttributeError"

definition entry_matches :: "string \<Rightarrow> memory_entry \<Rightarrow> bool" where
  "entry_matches query_lower entry =
     list_ex (\<lambda>t. py_in (py_lower t) query_lower) (dict_get (mem_search_terms entry) [])"

text \<open>The \<^verbatim>\<open>try\<close> block of \<^verbatim>\<open>_check_memory\<close>. The second parameter of the
  source is not read by its body.\<close>

definition check_memory_try ::
  "loader \<Rightarrow> memory_file \<Rightarrow> string \<Rightarrow> string list \<Rightarrow> py_exception + memory_entry option" where
  "check_memory_try load mf query terms =
     (case mf of
        Absent \<Rightarrow> Inr None
      | _ \<Rightarrow>
          (case load mf of
             Inl ex \<Rightarrow> Inl ex
           | Inr queries \<Rightarrow> Inr (find (entry_matches (py_lower query)) queries)))"

text \<open>The \<^verbatim>\<open>except\<close> clause returns \<^verbatim>\<open>None\<close>.\<close>

definition check_memory_with ::
  "loader \<Rightarrow> memory_file \<Rightarrow> string \<Rightarrow> string list \<Rightarrow> memory_entry option" where
  "check_memory_with load mf query terms =
     (case check_memory_try load mf query terms of Inl ex \<Rightarrow> None | Inr memory_result \<Rightarrow> memory_result)"

definition check_memory :: "memory_file \<Rightarrow> string \<Rightarrow> string list \<Rightarrow> memory_entry option" where
  "check_memory = check_memory_with pyjson_load"

text \<open>\<^verbatim>\<open>xs[-n:]\<close> for a positive \<open>n\<close>.\<close>

definition py_last :: "nat \<Rightarrow> 'a list \<Rightarrow> 'a list" where
  "py_last n xs = drop (length xs - n) xs"

text \<open>
  \<^verbatim>\<open>_store_memory\<close> returns nothing; the model returns the file it leaves and what it
  did to it. An exception of the load is caught before the file is opened for writing,
  and the file stays as it was. An exception of the dump is caught after the file has
  been opened for writing, and the file stays empty.
\<close>

definition store_memory_with ::
  "loader \<Rightarrow> dumper \<Rightarrow> memory_file \<Rightarrow> string \<Rightarrow> string list \<Rightarrow> string \<Rightarrow> string
     \<Rightarrow> memory_file \<times> event list" where
  "store_memory_with load dump mf query terms summary now =
     (let new_entry = \<lparr>mem_query = Some query, mem_search_terms = Some terms,
                        mem_summary = Some summary, mem_timestamp = Some now\<rparr>
      in case (case mf of Absent \<Rightarrow> Inr [] | _ \<Rightarrow> load mf) of
           Inl ex \<Rightarrow> (mf, [])
         | Inr queries \<Rightarrow>
             (case dump (py_last 49 queries @ [new_entry]) of
                Inl ex \<Rightarrow> (Empty_File, [Memory_Write])
              | Inr written \<Rightarrow> (written, [Memory_Write])))"

definition store_memory ::
  "memory_file \<Rightarrow> string \<Rightarrow> string list \<Rightarrow> string \<Rightarrow> string \<Rightarrow> memory_file \<times> event list" where
  "store_memory = store_memory_with pyjson_load pyjson_dump"

subsection \<open>The stages of \<^verbatim>\<open>mcp_search\<close>\<close>

text \<open>Stage 1. The \<^verbatim>\<open>try\<close> block: the triple
  \<^verbatim>\<open>(is_search, search_terms, stage1_response)\<close>, or the exception raised. Inside
  \<^verbatim>\<open>mcp_search\<close> the name \<^verbatim>\<open>pyjson\<close> is the JSON module, so
  \<^verbatim>\<open>pyjson.loads\<close> parses.\<close>

definition intent_try :: "intent_reply \<Rightarrow> py_exception + bool \<times> string list \<times> string" where
  "intent_try reply =
     (case reply of
        Intent_Request_Failed \<Rightarrow> Inl RequestException
      | Intent_Not_JSON \<Rightarrow> Inl JSONDecodeError
      | Intent_Not_Object \<Rightarrow> Inl AttributeError
      | Intent_Parsed parsed \<Rightarrow>
          (case p_is_search parsed of
             Is_Search_Not_Text \<Rightarrow> Inl AttributeError
           | Is_Search_Missing \<Rightarrow>
               Inr (py_lower (py_strip ''no'') = ''yes'',
                    dict_get (p_search_terms parsed) [],
                    dict_get (p_response parsed) [])
           | Is_Search_Text answer \<Rightarrow>
               Inr (py_lower (py_strip answer) = ''yes'',
                    dict_get (p_search_terms parsed) [],
                    dict_get (p_response parsed) [])))"

text \<open>With the \<^verbatim>\<open>except\<close> clause: the fallback.\<close>

definition intent_extraction :: "string \<Rightarrow> intent_reply \<Rightarrow> bool \<times> string list \<times> string" where
  "intent_extraction query reply =
     (case intent_try reply of
        Inr extracted \<Rightarrow> extracted
      | Inl ex \<Rightarrow>
          (True,
           take 3 (py_split (py_lower query)),
           ''I'' @ [CHR 0x27] @ ''ll search for entries related to your query: '' @ query))"

text \<open>Stage 3. \<^verbatim>\<open>f"user_id:{user_id}" if user_id else ""\<close>\<close>

definition filter_str :: "string option \<Rightarrow> string" where
  "filter_str user_id =
     (case user_id of None \<Rightarrow> [] | Some u \<Rightarrow> if u = [] then [] else ''user_id:'' @ u)"

definition clean_hit :: "string \<Rightarrow> raw_hit \<Rightarrow> hit" where
  "clean_hit obj_id h =
     \<lparr>hit_objectID = obj_id,
      hit_title = dict_get (raw_title h) [],
      hit_summary = dict_get (raw_summary h) [],
      hit_tags = dict_get (raw_tags h) [],
      hit_timestamp = dict_get (raw_timestamp h) []\<rparr>"

text \<open>The two inner loops over the hits of one answer; the state is
  \<^verbatim>\<open>(algolia_results, seen_ids)\<close>. A hit without \<^verbatim>\<open>objectID\<close>, or with an
  empty one, is skipped.\<close>

fun collect_hits :: "raw_hit list \<Rightarrow> hit list \<times> string set \<Rightarrow> hit list \<times> string set" where
  "collect_hits [] st = st"
| "collect_hits (h # hs) (algolia_results, seen_ids) =
     (case raw_objectID h of
        None \<Rightarrow> collect_hits hs (algolia_results, seen_ids)
      | Some obj_id \<Rightarrow>
          if obj_id \<noteq> [] \<and> obj_id \<notin> seen_ids
          then collect_hits hs (algolia_results @ [clean_hit obj_id h], insert obj_id seen_ids)
          else collect_hits hs (algolia_results, seen_ids))"

text \<open>The loop over the terms: one query per term, numbered from \<open>n\<close>. The first failing
  query ends the loop with \<open>None\<close>, the exception of the source.\<close>

fun search_loop ::
  "index_service \<Rightarrow> string \<Rightarrow> nat \<Rightarrow> string list \<Rightarrow> hit list \<times> string set
     \<Rightarrow> (hit list \<times> string set) option \<times> event list" where
  "search_loop svc flt n [] st = (Some st, [])"
| "search_loop svc flt n (t # ts) st =
     (case svc n t flt of
        None \<Rightarrow> (None, [Index_Query t flt])
      | Some results \<Rightarrow>
          (case search_loop svc flt (Suc n) ts (collect_hits (concat results) st) of
             (r, ev) \<Rightarrow> (r, Index_Query t flt # ev)))"

definition search_execution ::
  "index_service \<Rightarrow> string option \<Rightarrow> string list \<Rightarrow> hit list \<times> event list" where
  "search_execution svc user_id terms =
     (case search_loop svc (filter_str user_id) 0 terms ([], {}) of
        (Some (algolia_results, seen_ids), ev) \<Rightarrow> (sort_by_relevance algolia_results terms, ev)
      | (None, ev) \<Rightarrow> ([], ev))"

text \<open>Stage 4: the stripped text, or the fallback summary of the \<^verbatim>\<open>except\<close> clause.\<close>

definition synthesis :: "synthesis_reply \<Rightarrow> hit list \<Rightarrow> string list \<Rightarrow> string" where
  "synthesis reply hits terms =
     (case reply of
        Synthesis_Text generated \<Rightarrow> py_strip generated
      | Synthesis_Failed \<Rightarrow>
          if hits \<noteq> []
          then ''Found '' @ str_nat (length hits) @ '' relevant entries for your query about ''
               @ py_join '', '' terms @ ''.''
          else ''No relevant entries found for your query.'')"

subsection \<open>\<^verbatim>\<open>mcp_search\<close>\<close>

text \<open>
  The result is the exception that leaves \<^verbatim>\<open>mcp_search\<close>, or the run that
  returns. The subscripts \<^verbatim>\<open>memory_result["summary"]\<close> and
  \<^verbatim>\<open>memory_result['timestamp']\<close> of stage 2 stand outside every \<^verbatim>\<open>try\<close>
  block and raise \<^verbatim>\<open>KeyError\<close> on an entry without the key.
\<close>

definition mcp_search :: "string \<Rightarrow> string option \<Rightarrow> env \<Rightarrow> py_exception + run" where
  "mcp_search query user_id e =
     (let response0 = \<lparr>original_query = query, search_terms = [], stage1_response = [],
                        algolia_hits = [], final_summary = [], memory_used = False,
                        timestamp = clock_start e\<rparr>
      in (case intent_extraction query (gen_intent e) of
        (is_search, terms, stage1) \<Rightarrow>
          (let response1 = response0\<lparr>search_terms := terms, stage1_response := stage1\<rparr>
           in (case check_memory (memory e) query terms of
               Some memory_result \<Rightarrow>
                 (case mem_summary memory_result of
                    None \<Rightarrow> Inl KeyError
                  | Some cached \<Rightarrow>
                      (case mem_timestamp memory_result of
                         None \<Rightarrow> Inl KeyError
                       | Some stamp \<Rightarrow>
                           Inr \<lparr>response = response1\<lparr>memory_used := True,
                                                      final_summary := cached\<rparr>,
                                memory_after = memory e,
                                events = [Intent_Call]\<rparr>))
             | None \<Rightarrow>
                 (if \<not> is_search
                  then Inr \<lparr>response = response1\<lparr>final_summary := stage1\<rparr>,
                            memory_after = memory e,
                            events = [Intent_Call]\<rparr>
                  else
                   (case search_execution (index e) user_id terms of
                      (sorted_results, ev3) \<Rightarrow>
                        (let response3 = response1\<lparr>algolia_hits := sorted_results\<rparr>;
                             summary = synthesis (gen_synthesis e) sorted_results terms
                         in (case store_memory (memory e) query terms summary (clock_store e) of
                             (file, ev5) \<Rightarrow>
                               Inr \<lparr>response = response3\<lparr>final_summary := summary\<rparr>,
                                    memory_after = file,
                                    events = [Intent_Call] @ ev3 @ [Synthesis_Call] @ ev5\<rparr>))))))))"

subsection \<open>Notions of the specification\<close>

text \<open>
  The definitions of this part follow the specification's wording; the theorems compare
  them with the embedding above.

  The score of the Relevance Ranker: per term, 3 for the title, 2 for the summary, 1 for
  any tag, added up over the terms.
\<close>

definition spec_term_score :: "hit \<Rightarrow> string \<Rightarrow> nat" where
  "spec_term_score h t =
     (if sublist (py_lower t) (py_lower (hit_title h)) then 3 else 0)
   + (if sublist (py_lower t) (py_lower (hit_summary h)) then 2 else 0)
   + (if (\<exists>tag \<in> set (hit_tags h). sublist (py_lower t) (py_lower tag)) then 1 else 0)"

definition spec_score :: "string list \<Rightarrow> hit \<Rightarrow> nat" where
  "spec_score terms h = sum_list (map (spec_term_score h) terms)"

text \<open>\<open>a\<close> may stand before \<open>b\<close>: a higher score, or the same score and a timestamp
  that is not smaller as a string.\<close>

definition ranks_before :: "string list \<Rightarrow> hit \<Rightarrow> hit \<Rightarrow> bool" where
  "ranks_before terms a b =
     (spec_score terms b < spec_score terms a
      \<or> (spec_score terms a = spec_score terms b \<and> hit_timestamp b \<le> hit_timestamp a))"

text \<open>The first hit with a given id among the hits in the order the index returned them,
  cleaned as the pipeline cleans it.\<close>

definition first_with_id :: "string \<Rightarrow> raw_hit list \<Rightarrow> raw_hit option" where
  "first_with_id i rs = find (\<lambda>r. raw_objectID r = Some i) rs"

definition first_copy :: "string \<Rightarrow> raw_hit list \<Rightarrow> hit option" where
  "first_copy i rs = map_option (clean_hit i) (first_with_id i rs)"

text \<open>The invariant of the two collecting loops, for the hits \<open>arrived\<close> so far.\<close>

definition dedup_inv :: "raw_hit list \<Rightarrow> hit list \<times> string set \<Rightarrow> bool" where
  "dedup_inv arrived st =
     (snd st = set (map hit_objectID (fst st))
      \<and> distinct (map hit_objectID (fst st))
      \<and> [] \<notin> snd st
      \<and> list_all (\<lambda>h. first_copy (hit_objectID h) arrived = Some h) (fst st)
      \<and> list_all (\<lambda>r. case raw_objectID r of None \<Rightarrow> True | Some i \<Rightarrow> i = [] \<or> i \<in> snd st)
           arrived)"

text \<open>A stored entry matches a query: one of its search terms, lowercased, is a substring
  of the lowercased query.\<close>

definition term_occurs :: "string \<Rightarrow> memory_entry \<Rightarrow> bool" where
  "term_occurs query entry =
     (\<exists>t \<in> set (dict_get (mem_search_terms entry) []). sublist (py_lower t) (py_lower query))"

text \<open>The JSON module's \<^verbatim>\<open>load\<close> and \<^verbatim>\<open>dump\<close>, and the two memory helpers
  as they run on them: the Memory Cache and the Memory Writer the specification
  describes.\<close>

definition json_load :: loader where
  "json_load mf =
     (case mf of
        Log queries \<Rightarrow> Inr queries
      | Absent \<Rightarrow> Inl OSError
      | _ \<Rightarrow> Inl JSONDecodeError)"

definition json_dump :: dumper where
  "json_dump queries = Inr (Log queries)"

definition spec_check_memory ::
  "memory_file \<Rightarrow> string \<Rightarrow> string list \<Rightarrow> memory_entry option" where
  "spec_check_memory = check_memory_with json_load"

definition spec_store_memory ::
  "memory_file \<Rightarrow> string \<Rightarrow> string list \<Rightarrow> string \<Rightarrow> string \<Rightarrow> memory_file \<times> event list" where
  "spec_store_memory = store_memory_with json_load json_dump"

text \<open>The values stage 1 hands to the later stages, and the runs that reach stage 3.\<close>

definition extracted_is_search :: "string \<Rightarrow> env \<Rightarrow> bool" where
  "extracted_is_search query e = fst (intent_extraction query (gen_intent e))"

definition extracted_terms :: "string \<Rightarrow> env \<Rightarrow> string list" where
  "extracted_terms query e = fst (snd (intent_extraction query (gen_intent e)))"

definition extracted_response :: "string \<Rightarrow> env \<Rightarrow> string" where
  "extracted_response query e = snd (snd (intent_extraction query (gen_intent e)))"

definition memory_lookup :: "string \<Rightarrow> env \<Rightarrow> memory_entry option" where
  "memory_lookup query e = check_memory (memory e) query (extracted_terms query e)"

definition reaches_stage3 :: "string \<Rightarrow> env \<Rightarrow> bool" where
  "reaches_stage3 query e = (memory_lookup query e = None \<and> extracted_is_search query e)"

text \<open>The acknowledgment of the Intent Extractor's fallback, and the fallback's values
  written as a reply of the text generation service.\<close>

definition fallback_ack :: "string \<Rightarrow> string" where
  "fallback_ack query =
     ''I'' @ [CHR 0x27] @ ''ll search for entries related to your query: '' @ query"

definition fallback_reply :: "string \<Rightarrow> parsed_intent" where
  "fallback_reply query =
     \<lparr>p_is_search = Is_Search_Text ''yes'',
      p_search_terms = Some (take 3 (map py_lower (py_split query))),
      p_intent = None,
      p_response = Some (fallback_ack query)\<rparr>"

text \<open>The summary stage 4 leaves in the response of such a run.\<close>

definition stage4_summary :: "string \<Rightarrow> string option \<Rightarrow> env \<Rightarrow> string" where
  "stage4_summary query user_id e =
     synthesis (gen_synthesis e)
       (fst (search_execution (index e) user_id (extracted_terms query e)))
       (extracted_terms query e)"

text \<open>A sequence of Memory Writer calls, each given by its four arguments (the last is
  the clock's reading), and the entries they append.\<close>

type_synonym store_call = "string \<times> string list \<times> string \<times> string"

definition entry_of :: "store_call \<Rightarrow> memory_entry" where
  "entry_of c =
     (case c of (query, terms, summary, now) \<Rightarrow>
        \<lparr>mem_query = Some query, mem_search_terms = Some terms, mem_summary = Some summary,
         mem_timestamp = Some now\<rparr>)"

definition store_step :: "memory_file \<Rightarrow> store_call \<Rightarrow> memory_file" where
  "store_step mf c =
     (case c of (query, terms, summary, now) \<Rightarrow> fst (store_memory mf query terms summary now))"

definition store_all :: "memory_file \<Rightarrow> store_call list \<Rightarrow> memory_file" where
  "store_all mf calls = foldl store_step mf calls"

definition spec_store_step :: "memory_file \<Rightarrow> store_call \<Rightarrow> memory_file" where
  "spec_store_step mf c =
     (case c of (query, terms, summary, now) \<Rightarrow>
        fst (spec_store_memory mf query terms summary now))"

definition spec_store_all :: "memory_file \<Rightarrow> store_call list \<Rightarrow> memory_file" where
  "spec_store_all mf calls = foldl spec_store_step mf calls"

subsection \<open>Example inputs\<close>

definition ex_raw_A :: raw_hit where
  "ex_raw_A = \<lparr>raw_objectID = Some ''1'', raw_title = Some ''Sleep patterns'',
               raw_summary = None, raw_tags = None, raw_timestamp = Some ''2024-01-01''\<rparr>"

definition ex_raw_A_again :: raw_hit where
  "ex_raw_A_again = \<lparr>raw_objectID = Some ''1'', raw_title = Some ''Sleep and work'',
                     raw_summary = None, raw_tags = None, raw_timestamp = Some ''2024-03-01''\<rparr>"

definition ex_raw_B :: raw_hit where
  "ex_raw_B = \<lparr>raw_objectID = Some ''2'', raw_title = None,
               raw_summary = Some ''A hard work week'', raw_tags = Some [''job''],
               raw_timestamp = Some ''2024-02-01''\<rparr>"

definition ex_hit_A :: hit where
  "ex_hit_A = \<lparr>hit_objectID = ''1'', hit_title = ''Sleep patterns'', hit_summary = [],
               hit_tags = [], hit_timestamp = ''2024-01-01''\<rparr>"

definition ex_hit_B :: hit where
  "ex_hit_B = \<lparr>hit_objectID = ''2'', hit_title = [], hit_summary = ''A hard work week'',
               hit_tags = [''job''], hit_timestamp = ''2024-02-01''\<rparr>"

definition ex_terms :: "string list" where
  "ex_terms = [''sleep'', ''work'']"

definition ex_responses :: "raw_hit list list list" where
  "ex_responses = [[[ex_raw_A]], [[ex_raw_A_again, ex_raw_B]]]"

text \<open>An index that answers the queries of \<open>ex_terms\<close> with \<open>ex_responses\<close>, and fails
  on every other term.\<close>

definition ex_index :: index_service where
  "ex_index n t flt =
     (if t = ''sleep'' then Some [[ex_raw_A]]
      else if t = ''work'' then Some [[ex_raw_A_again, ex_raw_B]]
      else None)"

definition ex_entry_week :: memory_entry where
  "ex_entry_week = \<lparr>mem_query = Some ''How was my week?'', mem_search_terms = Some [''Week''],
                    mem_summary = Some ''You had a calm week.'',
                    mem_timestamp = Some ''2024-05-01T10:00:00''\<rparr>"

definition ex_entry_empty_term :: memory_entry where
  "ex_entry_empty_term = \<lparr>mem_query = Some ''   '', mem_search_terms = Some [[]],
                          mem_summary = Some ''No relevant entries found for your query.'',
                          mem_timestamp = Some ''2024-05-03T10:00:00''\<rparr>"

definition ex_entry_travel :: memory_entry where
  "ex_entry_travel = \<lparr>mem_query = Some ''trips'', mem_search_terms = Some [''travel'', ''trip''],
                      mem_summary = Some ''Two trips in spring.'',
                      mem_timestamp = Some ''2024-04-01T10:00:00''\<rparr>"

text \<open>An environment in which the text generation service fails at both stages and no
  memory file exists.\<close>

definition ex_env :: env where
  "ex_env = \<lparr>gen_intent = Intent_Request_Failed, gen_synthesis = Synthesis_Failed,
             index = ex_index, memory = Absent,
             clock_start = ''2024-06-01T09:00:00'', clock_store = ''2024-06-01T09:00:02''\<rparr>"

definition ex_query :: string where
  "ex_query = ''Tell me about my week''"

definition ex_parsed_no :: parsed_intent where
  "ex_parsed_no = \<lparr>p_is_search = Is_Search_Text '' No '', p_search_terms = Some [''week''],
                   p_intent = None, p_response = Some ''Happy to chat!''\<rparr>"

definition ex_parsed_empty :: parsed_intent where
  "ex_parsed_empty = \<lparr>p_is_search = Is_Search_Text ''Yes'', p_search_terms = Some [],
                      p_intent = None, p_response = None\<rparr>"

text \<open>A reply whose \<^verbatim>\<open>is_search\<close> is the JSON value \<^verbatim>\<open>true\<close>, not a string.\<close>

definition ex_parsed_malformed :: parsed_intent where
  "ex_parsed_malformed = \<lparr>p_is_search = Is_Search_Not_Text, p_search_terms = Some [''week''],
                          p_intent = None, p_response = Some ''Searching.''\<rparr>"

definition ex_parsed_dreams :: parsed_intent where
  "ex_parsed_dreams = \<lparr>p_is_search = Is_Search_Text ''yes'',
                       p_search_terms = Some [''sleep'', ''dreams'', ''work''],
                       p_intent = None, p_response = Some ''Searching.''\<rparr>"

text \<open>Fifty-one Memory Writer calls, numbered in their queries.\<close>

definition ex_call :: "nat \<Rightarrow> store_call" where
  "ex_call n = (str_nat n, [''week''], ''summary'', ''2024-06-01'')"

definition ex_calls :: "store_call list" where
  "ex_calls = map ex_call [0..<51]"

section \<open>Properties\<close>

subsection \<open>Strings\<close>

lemma py_in_sublist: "py_in a b = sublist a b"
  by (induction b) (auto simp: sublist_Cons_right)

lemma is_space_lower: "is_space (lower_char c) = is_space c"
  by (auto simp: lower_char_def is_space_def less_eq_char_def Let_def)

lemma split_from_lower:
  "split_from (map lower_char w) (map lower_char s) = map (map lower_char) (split_from w s)"
proof (induction s arbitrary: w)
  case Nil
  then show ?case by simp
next
  case (Cons c cs)
  from Cons [of "[]"] Cons [of "w @ [c]"] show ?case
    by (simp add: is_space_lower)
qed

lemma py_split_lower: "py_split (py_lower s) = map py_lower (py_split s)"
  using split_from_lower [of "[]" s] by (simp add: py_split_def py_lower_def)

subsection \<open>The Relevance Ranker\<close>

lemma relevance_loop_sum:
  "relevance_loop h ts acc = acc + sum_list (map (spec_term_score h) ts)"
  by (induction ts arbitrary: acc)
     (simp_all add: spec_term_score_def py_in_sublist list_ex_iff Let_def)

lemma calculate_relevance_spec: "calculate_relevance terms h = spec_score terms h"
  by (simp add: calculate_relevance_def spec_score_def relevance_loop_sum)

lemma key_le_iff:
  "sort_key_of terms b \<le> sort_key_of terms a \<longleftrightarrow> ranks_before terms a b"
  by (auto simp: sort_key_of_def ranks_before_def calculate_relevance_spec)

lemma sort_by_relevance_sorted:
  "sorted_wrt (ranks_before terms) (sort_by_relevance hits terms)"
proof -
  have "sorted (map (sort_key_of terms) (sort_key (sort_key_of terms) (rev hits)))"
    by (rule sorted_sort_key)
  then have "sorted_wrt (\<lambda>a b. sort_key_of terms a \<le> sort_key_of terms b)
               (sort_key (sort_key_of terms) (rev hits))"
    by (simp add: sorted_map)
  then have "sorted_wrt (\<lambda>a b. sort_key_of terms b \<le> sort_key_of terms a)
               (sort_by_relevance hits terms)"
    by (simp add: sort_by_relevance_def sorted_wrt_rev)
  then show ?thesis
    by (simp add: key_le_iff)
qed

lemma sort_by_relevance_mset: "mset (sort_by_relevance hits terms) = mset hits"
  by (simp add: sort_by_relevance_def)

lemma sort_by_relevance_Nil: "sort_by_relevance [] terms = []"
  by (simp add: sort_by_relevance_def)

lemma sort_by_relevance_stable:
  "filter (\<lambda>h. sort_key_of terms h = k) (sort_by_relevance hits terms)
     = filter (\<lambda>h. sort_key_of terms h = k) hits"
  by (simp add: sort_by_relevance_def rev_filter [symmetric] sort_key_stable)

lemma pair_key:
  "(spec_score terms h = s \<and> hit_timestamp h = ts) = (sort_key_of terms h = (s, ts))"
  by (auto simp: sort_key_of_def calculate_relevance_spec)

text \<open>
  C3. The score \<^verbatim>\<open>calculate_relevance\<close> computes is the specification's weighted sum
  over the terms, with no cap. The ranked list is a rearrangement of the input in which
  every hit stands before the hits of lower score and, at equal score, before those
  whose timestamp is a smaller string; the hits that agree on score and timestamp stand
  in their input order. The ranking is a function of the hits and the terms, so a
  repeated call returns the same list.
\<close>

theorem ranker_order:
  "calculate_relevance terms h = spec_score terms h
   \<and> mset (sort_by_relevance hits terms) = mset hits
   \<and> sorted_wrt (ranks_before terms) (sort_by_relevance hits terms)
   \<and> filter (\<lambda>x. spec_score terms x = s \<and> hit_timestamp x = ts) (sort_by_relevance hits terms)
       = filter (\<lambda>x. spec_score terms x = s \<and> hit_timestamp x = ts) hits"
  by (simp only: calculate_relevance_spec sort_by_relevance_mset sort_by_relevance_sorted
        pair_key sort_by_relevance_stable simp_thms)

theorem ranker_order_witness:
  "calculate_relevance ex_terms ex_hit_A = 3
   \<and> calculate_relevance ex_terms ex_hit_B = 2
   \<and> sort_by_relevance [ex_hit_B, ex_hit_A] ex_terms = [ex_hit_A, ex_hit_B]
   \<and> sorted_wrt (ranks_before ex_terms) (sort_by_relevance [ex_hit_B, ex_hit_A] ex_terms)"
proof -
  have a: "calculate_relevance ex_terms ex_hit_A = 3"
    by code_simp
  have b: "calculate_relevance ex_terms ex_hit_B = 2"
    by code_simp
  have c: "sort_by_relevance [ex_hit_B, ex_hit_A] ex_terms = [ex_hit_A, ex_hit_B]"
    by code_simp
  from a b c ranker_order [of ex_terms ex_hit_A "[ex_hit_B, ex_hit_A]" 3 "''2024-01-01''"]
  show ?thesis by simp
qed

subsection \<open>The Search Executor\<close>

lemma find_append_cases:
  "find P (xs @ ys) = (case find P xs of None \<Rightarrow> find P ys | Some x \<Rightarrow> Some x)"
  by (induction xs) simp_all

lemma find_None_iff_set: "find P xs = None \<longleftrightarrow> (\<forall>x \<in> set xs. \<not> P x)"
  by (induction xs) simp_all

lemma collect_hits_append:
  "collect_hits (xs @ ys) st = collect_hits ys (collect_hits xs st)"
  by (induction xs st rule: collect_hits.induct) (simp_all split: option.splits)

lemma clean_hit_id: "hit_objectID (clean_hit i r) = i"
  by (simp add: clean_hit_def)

lemma dedup_inv_step:
  assumes "dedup_inv arrived (res, seen)"
  shows "dedup_inv (arrived @ [r]) (collect_hits [r] (res, seen))"
proof (cases "raw_objectID r")
  case None
  with assms show ?thesis
    by (auto simp: dedup_inv_def list_all_iff first_copy_def first_with_id_def
          find_append_cases split: option.splits)
next
  case (Some i)
  show ?thesis
  proof (cases "i \<noteq> [] \<and> i \<notin> seen")
    case True
    from assms True have nf: "first_with_id i arrived = None"
      by (auto simp: dedup_inv_def list_all_iff first_with_id_def find_None_iff_set)
    from assms True Some nf show ?thesis
      by (auto simp: dedup_inv_def list_all_iff first_copy_def first_with_id_def
            find_append_cases clean_hit_id split: option.splits)
  next
    case False
    with assms Some show ?thesis
      by (auto simp: dedup_inv_def list_all_iff first_copy_def first_with_id_def
            find_append_cases split: option.splits)
  qed
qed

lemma dedup_inv_collect:
  "dedup_inv arrived st \<Longrightarrow> dedup_inv (arrived @ rs) (collect_hits rs st)"
proof (induction rs arbitrary: arrived st)
  case Nil
  then show ?case by simp
next
  case (Cons r rs)
  obtain res seen where st: "st = (res, seen)" by (cases st)
  from Cons.prems st have "dedup_inv (arrived @ [r]) (collect_hits [r] st)"
    by (simp only: dedup_inv_step)
  then have "dedup_inv ((arrived @ [r]) @ rs) (collect_hits rs (collect_hits [r] st))"
    by (rule Cons.IH)
  then show ?case
    using collect_hits_append [of "[r]" rs st] by simp
qed

lemma dedup_inv_init: "dedup_inv [] ([], {})"
  by (simp add: dedup_inv_def)

lemma dedup_inv_result: "dedup_inv rs (collect_hits rs ([], {}))"
  using dedup_inv_collect [OF dedup_inv_init, of rs] by simp

lemma search_loop_all_succeed:
  assumes "length responses = length terms"
      and "\<forall>i < length terms. svc (n + i) (terms ! i) flt = Some (responses ! i)"
  shows "search_loop svc flt n terms st =
           (Some (collect_hits (concat (map concat responses)) st),
            map (\<lambda>t. Index_Query t flt) terms)"
  using assms
proof (induction terms arbitrary: n responses st)
  case Nil
  then show ?case by simp
next
  case (Cons t ts)
  then obtain r rs where resp: "responses = r # rs"
    by (cases responses) auto
  from Cons.prems(2) resp have here: "svc n t flt = Some r"
    by fastforce
  have rest: "\<forall>i < length ts. svc (Suc n + i) (ts ! i) flt = Some (rs ! i)"
  proof (intro allI impI)
    fix i assume "i < length ts"
    then have "svc (n + Suc i) ((t # ts) ! Suc i) flt = Some (responses ! Suc i)"
      using Cons.prems(2) by (metis Suc_less_eq length_Cons)
    then show "svc (Suc n + i) (ts ! i) flt = Some (rs ! i)"
      by (simp add: resp)
  qed
  from Cons.prems(1) resp have len: "length rs = length ts" by simp
  show ?case
    by (simp add: here resp Cons.IH [OF len rest] collect_hits_append)
qed

lemma fst_search_loop_Cons:
  "fst (search_loop svc flt n (t # ts) st) =
     (case svc n t flt of
        None \<Rightarrow> None
      | Some results \<Rightarrow> fst (search_loop svc flt (Suc n) ts (collect_hits (concat results) st)))"
  by (simp split: option.splits prod.splits)

lemma search_loop_failure:
  "\<exists>i < length ts. svc (n + i) (ts ! i) flt = None \<Longrightarrow> fst (search_loop svc flt n ts st) = None"
proof (induction ts arbitrary: n st)
  case Nil
  then show ?case by simp
next
  case (Cons t ts)
  show ?case
  proof (cases "svc n t flt")
    case None
    then show ?thesis by simp
  next
    case (Some results)
    from Cons.prems obtain i where i: "i < length (t # ts)" "svc (n + i) ((t # ts) ! i) flt = None"
      by blast
    with Some obtain j where j: "i = Suc j" by (cases i) auto
    with i have "\<exists>k < length ts. svc (Suc n + k) (ts ! k) flt = None"
      by auto
    then have "fst (search_loop svc flt (Suc n) ts (collect_hits (concat results) st)) = None"
      by (rule Cons.IH)
    with Some show ?thesis
      by (simp only: fst_search_loop_Cons option.case)
  qed
qed

lemma search_execution_failure:
  "\<exists>i < length terms. svc i (terms ! i) (filter_str user_id) = None
     \<Longrightarrow> fst (search_execution svc user_id terms) = []"
proof -
  assume fails: "\<exists>i < length terms. svc i (terms ! i) (filter_str user_id) = None"
  obtain r ev where sl: "search_loop svc (filter_str user_id) 0 terms ([], {}) = (r, ev)"
    by (cases "search_loop svc (filter_str user_id) 0 terms ([], {})")
  from fails have "fst (search_loop svc (filter_str user_id) 0 terms ([], {})) = None"
    using search_loop_failure [of terms svc 0 "filter_str user_id" "([], {})"] by simp
  with sl have "r = None" by simp
  with sl show ?thesis
    by (simp add: search_execution_def)
qed

lemma search_execution_Nil: "search_execution svc user_id [] = ([], [])"
  by (simp add: search_execution_def sort_by_relevance_Nil)

text \<open>
  C2. When the index answers the query of each term, the list the Search Executor merges
  from the answers holds every document id at most once (and so does the ranked list in
  the response); the copy it holds of an id is the first hit with that id in the order of
  the queries and, within an answer, of the hits; and the ids it holds are the non-empty
  ids returned. One query is issued per term, in the order of the terms.
\<close>

theorem merged_hits_dedup:
  assumes "length responses = length terms"
      and "\<forall>i < length terms. svc i (terms ! i) (filter_str user_id) = Some (responses ! i)"
  shows "\<exists>merged seen.
           search_loop svc (filter_str user_id) 0 terms ([], {})
             = (Some (merged, seen), map (\<lambda>t. Index_Query t (filter_str user_id)) terms)
         \<and> fst (search_execution svc user_id terms) = sort_by_relevance merged terms
         \<and> distinct (map hit_objectID merged)
         \<and> distinct (map hit_objectID (sort_by_relevance merged terms))
         \<and> (\<forall>h \<in> set merged.
               first_copy (hit_objectID h) (concat (map concat responses)) = Some h)
         \<and> set (map hit_objectID merged)
             = {i. i \<noteq> [] \<and> (\<exists>r \<in> set (concat (map concat responses)). raw_objectID r = Some i)}"
proof -
  define arrived where "arrived = concat (map concat responses)"
  obtain merged seen where st: "collect_hits arrived ([], {}) = (merged, seen)"
    by (cases "collect_hits arrived ([], {})")
  from assms have loop:
    "search_loop svc (filter_str user_id) 0 terms ([], {})
       = (Some (merged, seen), map (\<lambda>t. Index_Query t (filter_str user_id)) terms)"
    using search_loop_all_succeed [of responses terms svc 0 "filter_str user_id" "([], {})"]
    by (simp add: arrived_def [symmetric] st)
  then have exec: "fst (search_execution svc user_id terms) = sort_by_relevance merged terms"
    by (simp add: search_execution_def)
  have inv: "dedup_inv arrived (merged, seen)"
    using dedup_inv_result [of arrived] by (simp add: st)
  then have d: "distinct (map hit_objectID merged)"
    by (simp add: dedup_inv_def)
  have "mset (map hit_objectID (sort_by_relevance merged terms)) = mset (map hit_objectID merged)"
    by (simp add: sort_by_relevance_mset)
  with d have ds: "distinct (map hit_objectID (sort_by_relevance merged terms))"
    by (metis mset_eq_imp_distinct_iff)
  from inv have first: "\<forall>h \<in> set merged. first_copy (hit_objectID h) arrived = Some h"
    by (simp add: dedup_inv_def list_all_iff)
  have ids: "set (map hit_objectID merged)
               = {i. i \<noteq> [] \<and> (\<exists>r \<in> set arrived. raw_objectID r = Some i)}"
  proof (intro set_eqI iffI)
    fix i assume "i \<in> set (map hit_objectID merged)"
    then obtain h where h: "h \<in> set merged" "hit_objectID h = i" by auto
    with first have "first_copy i arrived = Some h" by auto
    then obtain r where "find (\<lambda>r. raw_objectID r = Some i) arrived = Some r"
      by (auto simp: first_copy_def first_with_id_def)
    then have "r \<in> set arrived \<and> raw_objectID r = Some i"
      by (auto simp: find_Some_iff)
    moreover have "i \<noteq> []"
    proof
      assume "i = []"
      with h have "[] \<in> hit_objectID ` set merged"
        by (metis imageI)
      moreover from inv have "[] \<notin> hit_objectID ` set merged"
        unfolding dedup_inv_def fst_conv snd_conv by auto
      ultimately show False by simp
    qed
    ultimately show "i \<in> {i. i \<noteq> [] \<and> (\<exists>r \<in> set arrived. raw_objectID r = Some i)}"
      by auto
  next
    fix i assume "i \<in> {i. i \<noteq> [] \<and> (\<exists>r \<in> set arrived. raw_objectID r = Some i)}"
    then obtain r where "i \<noteq> []" "r \<in> set arrived" "raw_objectID r = Some i" by auto
    with inv show "i \<in> set (map hit_objectID merged)"
      by (auto simp: dedup_inv_def list_all_iff split: option.splits)
  qed
  from loop exec d ds first ids show ?thesis
    unfolding arrived_def by blast
qed

theorem merged_hits_dedup_witness:
  "length ex_responses = length ex_terms
   \<and> fst (search_execution ex_index (Some ''u1'') ex_terms) = [ex_hit_A, ex_hit_B]
   \<and> first_copy ''1'' (concat (map concat ex_responses)) = Some ex_hit_A
   \<and> (\<exists>merged. fst (search_execution ex_index (Some ''u1'') ex_terms)
                   = sort_by_relevance merged ex_terms
                 \<and> distinct (map hit_objectID merged)
                 \<and> (\<forall>h \<in> set merged.
                       first_copy (hit_objectID h) (concat (map concat ex_responses)) = Some h))"
proof -
  have len: "length ex_responses = length ex_terms"
    by (simp add: ex_responses_def ex_terms_def)
  have answers: "\<forall>i < length ex_terms.
      ex_index i (ex_terms ! i) (filter_str (Some ''u1'')) = Some (ex_responses ! i)"
    by (auto simp: ex_terms_def ex_responses_def ex_index_def less_Suc_eq)
  have ranked: "fst (search_execution ex_index (Some ''u1'') ex_terms) = [ex_hit_A, ex_hit_B]"
    by code_simp
  have copy: "first_copy ''1'' (concat (map concat ex_responses)) = Some ex_hit_A"
    by code_simp
  from merged_hits_dedup [of ex_responses ex_terms ex_index "Some ''u1''", OF len answers] have
    "\<exists>merged. fst (search_execution ex_index (Some ''u1'') ex_terms)
                 = sort_by_relevance merged ex_terms
               \<and> distinct (map hit_objectID merged)
               \<and> (\<forall>h \<in> set merged.
                     first_copy (hit_objectID h) (concat (map concat ex_responses)) = Some h)"
    by blast
  with len ranked copy show ?thesis
    by simp
qed

lemma search_loop_first_failure:
  "fst (search_loop svc flt n ts st) = None \<Longrightarrow>
     \<exists>k < length ts. svc (n + k) (ts ! k) flt = None
       \<and> snd (search_loop svc flt n ts st) = map (\<lambda>t. Index_Query t flt) (take (Suc k) ts)"
proof (induction ts arbitrary: n st)
  case Nil
  then show ?case by simp
next
  case (Cons t ts)
  show ?case
  proof (cases "svc n t flt")
    case None
    then show ?thesis
      by (intro exI [of _ 0]) simp
  next
    case (Some results)
    let ?rest = "search_loop svc flt (Suc n) ts (collect_hits (concat results) st)"
    from Cons.prems Some have "fst ?rest = None"
      by (simp only: fst_search_loop_Cons option.case)
    then obtain k where k: "k < length ts" "svc (Suc n + k) (ts ! k) flt = None"
        "snd ?rest = map (\<lambda>t. Index_Query t flt) (take (Suc k) ts)"
      using Cons.IH by blast
    from Some have "snd (search_loop svc flt n (t # ts) st) = Index_Query t flt # snd ?rest"
      by (simp split: prod.splits)
    with k show ?thesis
      by (intro exI [of _ "Suc k"]) simp
  qed
qed

lemma search_execution_first_failure:
  assumes "\<exists>i < length terms. svc i (terms ! i) (filter_str user_id) = None"
  shows "\<exists>k < length terms. svc k (terms ! k) (filter_str user_id) = None
           \<and> snd (search_execution svc user_id terms)
               = map (\<lambda>t. Index_Query t (filter_str user_id)) (take (Suc k) terms)"
proof -
  let ?loop = "search_loop svc (filter_str user_id) 0 terms ([], {})"
  from assms have none: "fst ?loop = None"
    using search_loop_failure [of terms svc 0 "filter_str user_id" "([], {})"] by simp
  then obtain k where k: "k < length terms" "svc k (terms ! k) (filter_str user_id) = None"
      "snd ?loop = map (\<lambda>t. Index_Query t (filter_str user_id)) (take (Suc k) terms)"
    using search_loop_first_failure [of svc "filter_str user_id" 0 terms "([], {})"] by auto
  obtain r ev where sl: "?loop = (r, ev)"
    by (cases ?loop)
  with none have "r = None" by simp
  with sl have "snd (search_execution svc user_id terms) = snd ?loop"
    by (simp add: search_execution_def)
  with k show ?thesis
    by (intro exI [of _ k]) simp
qed

subsection \<open>The memory helpers of the program\<close>

lemma check_memory_None: "check_memory mf query terms = None"
  by (cases mf)
     (simp_all add: check_memory_def check_memory_with_def check_memory_try_def pyjson_load_def)

lemma memory_lookup_None: "memory_lookup query e = None"
  by (simp add: memory_lookup_def check_memory_None)

lemma store_memory_Absent:
  "store_memory Absent query terms summary now = (Empty_File, [Memory_Write])"
  by (simp add: store_memory_def store_memory_with_def pyjson_dump_def)

lemma store_memory_present:
  "mf \<noteq> Absent \<Longrightarrow> store_memory mf query terms summary now = (mf, [])"
  by (cases mf) (simp_all add: store_memory_def store_memory_with_def pyjson_load_def)

lemma store_memory_events:
  "Index_Query t flt \<notin> set (snd (store_memory mf query terms summary now))"
  by (cases "mf = Absent") (simp_all add: store_memory_Absent store_memory_present)

lemma store_step_Absent: "store_step Absent c = Empty_File"
  by (cases c) (simp add: store_step_def store_memory_Absent)

lemma store_step_present: "mf \<noteq> Absent \<Longrightarrow> store_step mf c = mf"
  by (cases c) (simp add: store_step_def store_memory_present)

lemma store_all_present: "mf \<noteq> Absent \<Longrightarrow> store_all mf calls = mf"
  unfolding store_all_def by (induction calls arbitrary: mf) (simp_all add: store_step_present)

lemma store_all_Absent: "calls \<noteq> [] \<Longrightarrow> store_all Absent calls = Empty_File"
proof (cases calls)
  case Nil
  assume "calls \<noteq> []"
  with Nil show ?thesis by simp
next
  case (Cons c cs)
  have "store_all Absent (c # cs) = store_all (store_step Absent c) cs"
    by (simp add: store_all_def)
  with Cons show ?thesis
    by (simp add: store_step_Absent store_all_present)
qed

subsection \<open>The ways through \<^verbatim>\<open>mcp_search\<close>\<close>

lemma intent_triple:
  "intent_extraction query (gen_intent e)
     = (extracted_is_search query e, extracted_terms query e, extracted_response query e)"
  by (simp add: extracted_is_search_def extracted_terms_def extracted_response_def)

lemma reaches_stage3_iff: "reaches_stage3 query e = extracted_is_search query e"
  by (simp add: reaches_stage3_def memory_lookup_None)

lemma mcp_search_no_search:
  assumes "\<not> extracted_is_search query e"
  shows "mcp_search query user_id e =
           Inr \<lparr>response = \<lparr>original_query = query, search_terms = extracted_terms query e,
                         stage1_response = extracted_response query e, algolia_hits = [],
                         final_summary = extracted_response query e, memory_used = False,
                         timestamp = clock_start e\<rparr>,
            memory_after = memory e, events = [Intent_Call]\<rparr>"
  using assms by (simp add: mcp_search_def intent_triple check_memory_None)

lemma mcp_search_full:
  assumes "reaches_stage3 query e"
  shows "mcp_search query user_id e =
           Inr \<lparr>response = \<lparr>original_query = query, search_terms = extracted_terms query e,
                         stage1_response = extracted_response query e,
                         algolia_hits =
                           fst (search_execution (index e) user_id (extracted_terms query e)),
                         final_summary = stage4_summary query user_id e, memory_used = False,
                         timestamp = clock_start e\<rparr>,
            memory_after =
              fst (store_memory (memory e) query (extracted_terms query e)
                     (stage4_summary query user_id e) (clock_store e)),
            events =
              [Intent_Call]
              @ snd (search_execution (index e) user_id (extracted_terms query e))
              @ [Synthesis_Call]
              @ snd (store_memory (memory e) query (extracted_terms query e)
                       (stage4_summary query user_id e) (clock_store e))\<rparr>"
  using assms
  by (simp add: mcp_search_def intent_triple check_memory_None reaches_stage3_iff
        stage4_summary_def Let_def split: prod.splits)

lemma run_stores:
  "reaches_stage3 query e \<Longrightarrow>
     map_sum id memory_after (mcp_search query user_id e)
       = Inr (store_step (memory e)
           (query, extracted_terms query e, stage4_summary query user_id e, clock_store e))"
  by (simp add: mcp_search_full store_step_def)

subsection \<open>The failures of stage 1\<close>

lemma intent_try_fails_iff:
  "isl (intent_try reply) =
     (reply = Intent_Request_Failed \<or> reply = Intent_Not_JSON \<or> reply = Intent_Not_Object
      \<or> (\<exists>parsed. reply = Intent_Parsed parsed \<and> p_is_search parsed = Is_Search_Not_Text))"
  by (cases reply) (auto simp: intent_try_def split: is_search_field.splits)

lemma fallback_extraction:
  "intent_try (gen_intent e) = Inl ex \<Longrightarrow>
     intent_extraction query (gen_intent e)
       = (True, take 3 (map py_lower (py_split query)), fallback_ack query)"
  by (simp add: intent_extraction_def py_split_lower take_map fallback_ack_def)

lemma fallback_terms:
  "intent_try (gen_intent e) = Inl ex \<Longrightarrow>
     extracted_terms query e = take 3 (map py_lower (py_split query))"
  by (simp add: extracted_terms_def fallback_extraction)

lemma fallback_is_search: "intent_try (gen_intent e) = Inl ex \<Longrightarrow> extracted_is_search query e"
  by (simp add: extracted_is_search_def fallback_extraction)

lemma fallback_response:
  "intent_try (gen_intent e) = Inl ex \<Longrightarrow> extracted_response query e = fallback_ack query"
  by (simp add: extracted_response_def fallback_extraction)

lemma strip_lower_yes: "py_lower (py_strip ''yes'') = ''yes''"
  by code_simp

lemma fallback_reply_extraction:
  "intent_extraction query (Intent_Parsed (fallback_reply query))
     = (True, take 3 (map py_lower (py_split query)), fallback_ack query)"
  by (simp add: intent_extraction_def intent_try_def fallback_reply_def dict_get_def
        strip_lower_yes)

lemma sublist_fallback_ack: "sublist query (fallback_ack query)"
  unfolding fallback_ack_def sublist_def
  by (intro exI [of _ "''I'' @ [CHR 0x27] @ ''ll search for entries related to your query: ''"]
        exI [of _ "[]"]) simp

subsection \<open>The Memory Cache\<close>

text \<open>
  C1. The program does not do what the specification says here. On a log that holds an
  entry with a search term occurring in the query, the Memory Cache of the specification
  (the helper on the JSON module) returns that entry; \<^verbatim>\<open>_check_memory\<close> as the
  program runs it returns \<^verbatim>\<open>None\<close>, because \<^verbatim>\<open>pyjson.load\<close> raises, and the
  run goes on to an index query and a synthesis call with \<^verbatim>\<open>memory_used\<close> false.
\<close>

theorem memory_short_circuit_failing_input:
  "term_occurs ex_query ex_entry_week
   \<and> spec_check_memory (Log [ex_entry_travel, ex_entry_week]) ex_query [''tell'', ''me'', ''about'']
       = Some ex_entry_week
   \<and> check_memory (Log [ex_entry_travel, ex_entry_week]) ex_query [''tell'', ''me'', ''about'']
       = None
   \<and> isl (mcp_search ex_query (Some ''u1'')
        (ex_env\<lparr>memory := Log [ex_entry_travel, ex_entry_week]\<rparr>)) = False
   \<and> memory_used (response (projr (mcp_search ex_query (Some ''u1'')
        (ex_env\<lparr>memory := Log [ex_entry_travel, ex_entry_week]\<rparr>)))) = False
   \<and> final_summary (response (projr (mcp_search ex_query (Some ''u1'')
        (ex_env\<lparr>memory := Log [ex_entry_travel, ex_entry_week]\<rparr>))))
       = ''No relevant entries found for your query.''
   \<and> events (projr (mcp_search ex_query (Some ''u1'')
        (ex_env\<lparr>memory := Log [ex_entry_travel, ex_entry_week]\<rparr>)))
       = [Intent_Call, Index_Query ''tell'' ''user_id:u1'', Synthesis_Call]"
  by code_simp

subsection \<open>Fallbacks\<close>

text \<open>
  C4. For every query and every behaviour of the collaborators (each reply of the text
  generation service at either stage, each behaviour of the index, each state of the
  memory file), \<^verbatim>\<open>mcp_search\<close> raises nothing and returns a response for the query.
  When the text generation service fails at both stages, the summary of the response is
  one of the two fallback sentences of stage 4, so it is not empty.
\<close>

theorem fallback_completeness:
  "\<exists>r. mcp_search query user_id e = Inr r
       \<and> original_query (response r) = query
       \<and> search_terms (response r) = extracted_terms query e
       \<and> stage1_response (response r) = extracted_response query e
       \<and> timestamp (response r) = clock_start e
       \<and> (isl (intent_try (gen_intent e)) \<and> gen_synthesis e = Synthesis_Failed \<longrightarrow>
             final_summary (response r) \<noteq> []
             \<and> final_summary (response r)
                 = (if algolia_hits (response r) \<noteq> []
                    then ''Found '' @ str_nat (length (algolia_hits (response r)))
                         @ '' relevant entries for your query about ''
                         @ py_join '', '' (take 3 (map py_lower (py_split query))) @ ''.''
                    else ''No relevant entries found for your query.''))"
proof (cases "extracted_is_search query e")
  case False
  then have "\<not> isl (intent_try (gen_intent e))"
    by (cases "intent_try (gen_intent e)") (auto simp: fallback_is_search)
  with False show ?thesis
    by (simp add: mcp_search_no_search)
next
  case True
  then have r3: "reaches_stage3 query e"
    by (simp add: reaches_stage3_iff)
  have "stage4_summary query user_id e \<noteq> []
        \<and> stage4_summary query user_id e
            = (if fst (search_execution (index e) user_id (extracted_terms query e)) \<noteq> []
               then ''Found ''
                    @ str_nat (length (fst (search_execution (index e) user_id
                         (extracted_terms query e))))
                    @ '' relevant entries for your query about ''
                    @ py_join '', '' (take 3 (map py_lower (py_split query))) @ ''.''
               else ''No relevant entries found for your query.'')"
    if "isl (intent_try (gen_intent e))" and "gen_synthesis e = Synthesis_Failed"
  proof -
    from that(1) obtain ex where "intent_try (gen_intent e) = Inl ex"
      by (cases "intent_try (gen_intent e)") auto
    then have "extracted_terms query e = take 3 (map py_lower (py_split query))"
      by (rule fallback_terms)
    with that(2) show ?thesis
      by (simp add: stage4_summary_def synthesis_def)
  qed
  with r3 show ?thesis
    by (simp add: mcp_search_full)
qed

theorem fallback_completeness_witness:
  "isl (intent_try (gen_intent (ex_env\<lparr>memory := Corrupt\<rparr>)))
   \<and> gen_synthesis (ex_env\<lparr>memory := Corrupt\<rparr>) = Synthesis_Failed
   \<and> isl (mcp_search ''tell me about my week'' (Some ''u1'') (ex_env\<lparr>memory := Corrupt\<rparr>)) = False
   \<and> final_summary (response (projr
        (mcp_search ''tell me about my week'' (Some ''u1'') (ex_env\<lparr>memory := Corrupt\<rparr>))))
       = ''No relevant entries found for your query.''
   \<and> final_summary (response (projr
        (mcp_search ''Sleep work'' (Some ''u1'') (ex_env\<lparr>memory := Corrupt\<rparr>))))
       = ''Found 2 relevant entries for your query about sleep, work.''
   \<and> final_summary (response (projr
        (mcp_search ''Sleep work'' (Some ''u1'') (ex_env\<lparr>memory := Corrupt\<rparr>)))) \<noteq> []"
proof -
  let ?e = "ex_env\<lparr>memory := Corrupt\<rparr>"
  have i: "isl (intent_try (gen_intent ?e))"
    by code_simp
  have s: "gen_synthesis ?e = Synthesis_Failed"
    by (simp add: ex_env_def)
  have a: "isl (mcp_search ''tell me about my week'' (Some ''u1'') ?e) = False"
    by code_simp
  have b: "final_summary (response (projr
        (mcp_search ''tell me about my week'' (Some ''u1'') ?e)))
       = ''No relevant entries found for your query.''"
    by code_simp
  have c: "final_summary (response (projr (mcp_search ''Sleep work'' (Some ''u1'') ?e)))
       = ''Found 2 relevant entries for your query about sleep, work.''"
    by code_simp
  from fallback_completeness [of "''Sleep work''" "Some ''u1''" ?e] i s
  obtain r where r: "mcp_search ''Sleep work'' (Some ''u1'') ?e = Inr r"
      and ne: "final_summary (response r) \<noteq> []"
    by blast
  from r ne have d: "final_summary (response (projr (mcp_search ''Sleep work'' (Some ''u1'') ?e)))
      \<noteq> []"
    by simp
  from i s a b c d show ?thesis
    by (intro conjI)
qed

subsection \<open>A failing index query\<close>

text \<open>
  C5. In a run that reaches stage 3, if the index fails on the query of some term, the
  response carries no hits: what the queries of the earlier terms returned is dropped,
  and stage 4 works on the empty list. The search step ends at a failing query: the
  index queries of the run are those of the terms up to it.
\<close>

theorem failed_query_discards_hits:
  assumes "reaches_stage3 query e"
      and "\<exists>i < length (extracted_terms query e).
             index e i (extracted_terms query e ! i) (filter_str user_id) = None"
  shows "\<exists>r. mcp_search query user_id e = Inr r
       \<and> algolia_hits (response r) = []
       \<and> final_summary (response r)
           = synthesis (gen_synthesis e) [] (extracted_terms query e)
       \<and> (\<exists>k < length (extracted_terms query e).
             index e k (extracted_terms query e ! k) (filter_str user_id) = None
             \<and> events r
                 = [Intent_Call]
                   @ map (\<lambda>t. Index_Query t (filter_str user_id))
                       (take (Suc k) (extracted_terms query e))
                   @ [Synthesis_Call]
                   @ snd (store_memory (memory e) query (extracted_terms query e)
                            (final_summary (response r)) (clock_store e)))"
proof -
  from assms(2) have hits: "fst (search_execution (index e) user_id (extracted_terms query e)) = []"
    by (rule search_execution_failure)
  from assms(2) obtain k where k: "k < length (extracted_terms query e)"
      "index e k (extracted_terms query e ! k) (filter_str user_id) = None"
      "snd (search_execution (index e) user_id (extracted_terms query e))
         = map (\<lambda>t. Index_Query t (filter_str user_id)) (take (Suc k) (extracted_terms query e))"
    using search_execution_first_failure [of "extracted_terms query e" "index e" user_id]
    by blast
  from assms(1) hits k show ?thesis
    by (auto simp: mcp_search_full stage4_summary_def)
qed

theorem failed_query_discards_hits_witness:
  "reaches_stage3 ex_query (ex_env\<lparr>gen_intent := Intent_Parsed ex_parsed_dreams\<rparr>)
   \<and> extracted_terms ex_query (ex_env\<lparr>gen_intent := Intent_Parsed ex_parsed_dreams\<rparr>)
       = [''sleep'', ''dreams'', ''work'']
   \<and> ex_index 0 ''sleep'' (filter_str (Some ''u1'')) = Some [[ex_raw_A]]
   \<and> ex_index 1 ''dreams'' (filter_str (Some ''u1'')) = None
   \<and> isl (mcp_search ex_query (Some ''u1'')
        (ex_env\<lparr>gen_intent := Intent_Parsed ex_parsed_dreams\<rparr>)) = False
   \<and> algolia_hits (response (projr (mcp_search ex_query (Some ''u1'')
        (ex_env\<lparr>gen_intent := Intent_Parsed ex_parsed_dreams\<rparr>)))) = []
   \<and> events (projr (mcp_search ex_query (Some ''u1'')
        (ex_env\<lparr>gen_intent := Intent_Parsed ex_parsed_dreams\<rparr>)))
       = [Intent_Call, Index_Query ''sleep'' ''user_id:u1'', Index_Query ''dreams'' ''user_id:u1'',
          Synthesis_Call, Memory_Write]"
proof -
  let ?e = "ex_env\<lparr>gen_intent := Intent_Parsed ex_parsed_dreams\<rparr>"
  have r: "reaches_stage3 ex_query ?e"
    by code_simp
  have t: "extracted_terms ex_query ?e = [''sleep'', ''dreams'', ''work'']"
    by code_simp
  have a: "ex_index 0 ''sleep'' (filter_str (Some ''u1'')) = Some [[ex_raw_A]]"
    by (simp add: ex_index_def)
  have b: "ex_index 1 ''dreams'' (filter_str (Some ''u1'')) = None"
    by (simp add: ex_index_def)
  have ix: "index ?e = ex_index"
    by (simp add: ex_env_def)
  from b t ix have f: "\<exists>i < length (extracted_terms ex_query ?e).
      index ?e i (extracted_terms ex_query ?e ! i) (filter_str (Some ''u1'')) = None"
    by (intro exI [of _ 1]) simp
  have ev: "events (projr (mcp_search ex_query (Some ''u1'') ?e))
       = [Intent_Call, Index_Query ''sleep'' ''user_id:u1'', Index_Query ''dreams'' ''user_id:u1'',
          Synthesis_Call, Memory_Write]"
    by code_simp
  from failed_query_discards_hits [OF r f]
  obtain res where res: "mcp_search ex_query (Some ''u1'') ?e = Inr res"
      and h: "algolia_hits (response res) = []"
    by blast
  from res have ret: "isl (mcp_search ex_query (Some ''u1'') ?e) = False"
    by simp
  from res h have hp: "algolia_hits (response (projr (mcp_search ex_query (Some ''u1'') ?e))) = []"
    by simp
  from r t a b ret hp ev show ?thesis
    by (intro conjI)
qed

subsection \<open>The Memory Writer\<close>

text \<open>
  C6. The program does not do what the specification says here. The Memory Writer of the
  specification (the helper on the JSON module) appends the entry to an absent file's
  empty log and leaves the last 50 entries after 51 calls. \<^verbatim>\<open>_store_memory\<close> as the
  program runs it persists no entry: on an absent file it opens the file for writing and
  \<^verbatim>\<open>pyjson.dump\<close> raises, which leaves a file with no bytes; on a file that exists
  \<^verbatim>\<open>pyjson.load\<close> raises and nothing is written. After 51 calls the file is empty.
\<close>

theorem memory_writer_failing_input:
  "store_memory Absent ''q'' [''t''] ''s'' ''now'' = (Empty_File, [Memory_Write])
   \<and> spec_store_memory Absent ''q'' [''t''] ''s'' ''now''
       = (Log [entry_of (''q'', [''t''], ''s'', ''now'')], [Memory_Write])
   \<and> store_memory Empty_File ''q'' [''t''] ''s'' ''now'' = (Empty_File, [])
   \<and> store_memory (Log [ex_entry_week]) ''q'' [''t''] ''s'' ''now'' = (Log [ex_entry_week], [])
   \<and> spec_store_memory (Log [ex_entry_week]) ''q'' [''t''] ''s'' ''now''
       = (Log [ex_entry_week, entry_of (''q'', [''t''], ''s'', ''now'')], [Memory_Write])
   \<and> length ex_calls = 51
   \<and> store_all Absent ex_calls = Empty_File
   \<and> spec_store_all Absent ex_calls = Log (drop 1 (map entry_of ex_calls))"
proof -
  have a: "store_memory Absent ''q'' [''t''] ''s'' ''now'' = (Empty_File, [Memory_Write])"
    by (rule store_memory_Absent)
  have b: "spec_store_memory Absent ''q'' [''t''] ''s'' ''now''
       = (Log [entry_of (''q'', [''t''], ''s'', ''now'')], [Memory_Write])"
    by code_simp
  have c: "store_memory Empty_File ''q'' [''t''] ''s'' ''now'' = (Empty_File, [])"
    by (simp add: store_memory_present)
  have d: "store_memory (Log [ex_entry_week]) ''q'' [''t''] ''s'' ''now'' = (Log [ex_entry_week], [])"
    by (simp add: store_memory_present)
  have f: "spec_store_memory (Log [ex_entry_week]) ''q'' [''t''] ''s'' ''now''
       = (Log [ex_entry_week, entry_of (''q'', [''t''], ''s'', ''now'')], [Memory_Write])"
    by code_simp
  have g: "length ex_calls = 51"
    by (simp add: ex_calls_def)
  then have "ex_calls \<noteq> []"
    by auto
  then have h: "store_all Absent ex_calls = Empty_File"
    by (rule store_all_Absent)
  have i: "spec_store_all Absent ex_calls = Log (drop 1 (map entry_of ex_calls))"
    by code_simp
  from a b c d f g h i show ?thesis
    by (intro conjI)
qed

subsection \<open>The Intent Extractor's fallback\<close>

text \<open>
  C7. When stage 1 fails in any way (the request fails, the text is not JSON, the JSON
  value is not an object, \<^verbatim>\<open>is_search\<close> is not a string), nothing is raised: the
  run goes on as a search. Its search terms are the first three whitespace-separated
  tokens of the query, lowercased; its acknowledgment is the fixed sentence followed by
  the query; it queries the index for these terms, synthesizes a summary from the ranked
  hits, and calls the Memory Writer. The whole run is the run in which the extraction had
  returned these values with \<^verbatim>\<open>is_search\<close> "yes".
\<close>

theorem intent_fallback:
  assumes "intent_try (gen_intent e) = Inl ex"
  shows "\<exists>r. mcp_search query user_id e = Inr r
       \<and> extracted_is_search query e = True
       \<and> search_terms (response r) = take 3 (map py_lower (py_split query))
       \<and> stage1_response (response r) = fallback_ack query
       \<and> sublist query (stage1_response (response r))
       \<and> memory_used (response r) = False
       \<and> algolia_hits (response r)
           = fst (search_execution (index e) user_id (take 3 (map py_lower (py_split query))))
       \<and> final_summary (response r)
           = synthesis (gen_synthesis e) (algolia_hits (response r))
               (take 3 (map py_lower (py_split query)))
       \<and> events r
           = [Intent_Call]
             @ snd (search_execution (index e) user_id (take 3 (map py_lower (py_split query))))
             @ [Synthesis_Call]
             @ snd (store_memory (memory e) query (take 3 (map py_lower (py_split query)))
                      (final_summary (response r)) (clock_store e))
       \<and> memory_after r
           = fst (store_memory (memory e) query (take 3 (map py_lower (py_split query)))
                    (final_summary (response r)) (clock_store e))
       \<and> mcp_search query user_id e
           = mcp_search query user_id (e\<lparr>gen_intent := Intent_Parsed (fallback_reply query)\<rparr>)"
proof -
  from assms have t: "extracted_terms query e = take 3 (map py_lower (py_split query))"
    by (rule fallback_terms)
  from assms have a: "extracted_response query e = fallback_ack query"
    by (rule fallback_response)
  from assms have s: "extracted_is_search query e"
    by (rule fallback_is_search)
  then have r3: "reaches_stage3 query e"
    by (simp add: reaches_stage3_iff)
  from assms have same:
    "intent_extraction query (gen_intent e)
       = intent_extraction query (Intent_Parsed (fallback_reply query))"
    by (simp only: fallback_extraction fallback_reply_extraction)
  have run: "mcp_search query user_id e
           = mcp_search query user_id (e\<lparr>gen_intent := Intent_Parsed (fallback_reply query)\<rparr>)"
    unfolding mcp_search_def
    by (simp add: same Let_def split: prod.splits option.splits)
  from r3 have full: "mcp_search query user_id e =
           Inr \<lparr>response = \<lparr>original_query = query, search_terms = extracted_terms query e,
                         stage1_response = extracted_response query e,
                         algolia_hits =
                           fst (search_execution (index e) user_id (extracted_terms query e)),
                         final_summary = stage4_summary query user_id e, memory_used = False,
                         timestamp = clock_start e\<rparr>,
            memory_after =
              fst (store_memory (memory e) query (extracted_terms query e)
                     (stage4_summary query user_id e) (clock_store e)),
            events =
              [Intent_Call]
              @ snd (search_execution (index e) user_id (extracted_terms query e))
              @ [Synthesis_Call]
              @ snd (store_memory (memory e) query (extracted_terms query e)
                       (stage4_summary query user_id e) (clock_store e))\<rparr>"
    by (rule mcp_search_full)
  show ?thesis
    apply (rule exI)
    apply (rule conjI)
     apply (rule full)
    apply (simp only: run.simps orchestration_response.simps t a s sublist_fallback_ack
             stage4_summary_def simp_thms)
    apply (rule run)
    done
qed

theorem intent_fallback_witness:
  "intent_try (gen_intent (ex_env\<lparr>gen_intent := Intent_Parsed ex_parsed_malformed\<rparr>))
     = Inl AttributeError
   \<and> take 3 (map py_lower (py_split ''  Sleep WORK '')) = [''sleep'', ''work'']
   \<and> isl (mcp_search ''  Sleep WORK '' (Some ''u1'')
        (ex_env\<lparr>gen_intent := Intent_Parsed ex_parsed_malformed\<rparr>)) = False
   \<and> search_terms (response (projr (mcp_search ''  Sleep WORK '' (Some ''u1'')
        (ex_env\<lparr>gen_intent := Intent_Parsed ex_parsed_malformed\<rparr>)))) = [''sleep'', ''work'']
   \<and> algolia_hits (response (projr (mcp_search ''  Sleep WORK '' (Some ''u1'')
        (ex_env\<lparr>gen_intent := Intent_Parsed ex_parsed_malformed\<rparr>)))) = [ex_hit_A, ex_hit_B]
   \<and> events (projr (mcp_search ''  Sleep WORK '' (Some ''u1'')
        (ex_env\<lparr>gen_intent := Intent_Parsed ex_parsed_malformed\<rparr>)))
       = [Intent_Call, Index_Query ''sleep'' ''user_id:u1'', Index_Query ''work'' ''user_id:u1'',
          Synthesis_Call, Memory_Write]"
proof -
  let ?e = "ex_env\<lparr>gen_intent := Intent_Parsed ex_parsed_malformed\<rparr>"
  let ?q = "''  Sleep WORK ''"
  have i: "intent_try (gen_intent ?e) = Inl AttributeError"
    by code_simp
  have t: "take 3 (map py_lower (py_split ?q)) = [''sleep'', ''work'']"
    by code_simp
  have h: "algolia_hits (response (projr (mcp_search ?q (Some ''u1'') ?e))) = [ex_hit_A, ex_hit_B]"
    by code_simp
  have ev: "events (projr (mcp_search ?q (Some ''u1'') ?e))
       = [Intent_Call, Index_Query ''sleep'' ''user_id:u1'', Index_Query ''work'' ''user_id:u1'',
          Synthesis_Call, Memory_Write]"
    by code_simp
  from intent_fallback [OF i, of ?q "Some ''u1''"]
  obtain r where r: "mcp_search ?q (Some ''u1'') ?e = Inr r"
      and st: "search_terms (response r) = take 3 (map py_lower (py_split ?q))"
    by blast
  from r have ret: "isl (mcp_search ?q (Some ''u1'') ?e) = False"
    by simp
  from r st t have stp: "search_terms (response (projr (mcp_search ?q (Some ''u1'') ?e)))
      = [''sleep'', ''work'']"
    by simp
  from i t ret stp h ev show ?thesis
    by (intro conjI)
qed

subsection \<open>Empty search terms\<close>

text \<open>
  C8, as amended. In a run that reaches stage 3 with no search terms, no index query is
  issued and the response carries no hits. Stage 4 still calls the text generation
  service: the summary is the stripped text of its reply when the call succeeds, and the
  sentence ``No relevant entries found for your query.'' when it fails.
\<close>

theorem empty_terms_no_query:
  assumes "reaches_stage3 query e" and "extracted_terms query e = []"
  shows "\<exists>r. mcp_search query user_id e = Inr r
       \<and> algolia_hits (response r) = []
       \<and> Index_Query t flt \<notin> set (events r)
       \<and> Synthesis_Call \<in> set (events r)
       \<and> final_summary (response r)
           = (case gen_synthesis e of
                Synthesis_Failed \<Rightarrow> ''No relevant entries found for your query.''
              | Synthesis_Text generated \<Rightarrow> py_strip generated)"
proof -
  from assms(2) have ex: "search_execution (index e) user_id (extracted_terms query e) = ([], [])"
    by (simp add: search_execution_Nil)
  then have sm: "stage4_summary query user_id e = synthesis (gen_synthesis e) [] []"
    by (simp add: stage4_summary_def assms(2))
  have "synthesis (gen_synthesis e) [] []
          = (case gen_synthesis e of
               Synthesis_Failed \<Rightarrow> ''No relevant entries found for your query.''
             | Synthesis_Text generated \<Rightarrow> py_strip generated)"
    by (simp add: synthesis_def split: synthesis_reply.splits)
  with assms(1) ex sm show ?thesis
    by (simp add: mcp_search_full store_memory_events)
qed

theorem empty_terms_no_query_witness:
  "reaches_stage3 ex_query (ex_env\<lparr>gen_intent := Intent_Parsed ex_parsed_empty\<rparr>)
   \<and> extracted_terms ex_query (ex_env\<lparr>gen_intent := Intent_Parsed ex_parsed_empty\<rparr>) = []
   \<and> isl (mcp_search ex_query (Some ''u1'')
        (ex_env\<lparr>gen_intent := Intent_Parsed ex_parsed_empty\<rparr>)) = False
   \<and> algolia_hits (response (projr (mcp_search ex_query (Some ''u1'')
        (ex_env\<lparr>gen_intent := Intent_Parsed ex_parsed_empty\<rparr>)))) = []
   \<and> final_summary (response (projr (mcp_search ex_query (Some ''u1'')
        (ex_env\<lparr>gen_intent := Intent_Parsed ex_parsed_empty\<rparr>))))
       = ''No relevant entries found for your query.''
   \<and> events (projr (mcp_search ex_query (Some ''u1'')
        (ex_env\<lparr>gen_intent := Intent_Parsed ex_parsed_empty\<rparr>)))
       = [Intent_Call, Synthesis_Call, Memory_Write]"
proof -
  let ?e = "ex_env\<lparr>gen_intent := Intent_Parsed ex_parsed_empty\<rparr>"
  have r: "reaches_stage3 ex_query ?e"
    by code_simp
  have t: "extracted_terms ex_query ?e = []"
    by code_simp
  have g: "gen_synthesis ?e = Synthesis_Failed"
    by (simp add: ex_env_def)
  have ev: "events (projr (mcp_search ex_query (Some ''u1'') ?e))
              = [Intent_Call, Synthesis_Call, Memory_Write]"
    by code_simp
  from empty_terms_no_query [OF r t, of "Some ''u1''" "[]" "[]"] g
  obtain res where res: "mcp_search ex_query (Some ''u1'') ?e = Inr res"
      and h: "algolia_hits (response res) = []"
      and s: "final_summary (response res) = ''No relevant entries found for your query.''"
    by auto
  from res have ret: "isl (mcp_search ex_query (Some ''u1'') ?e) = False"
    by simp
  from res h have hp: "algolia_hits (response (projr (mcp_search ex_query (Some ''u1'') ?e))) = []"
    by simp
  from res s have sp: "final_summary (response (projr (mcp_search ex_query (Some ''u1'') ?e)))
      = ''No relevant entries found for your query.''"
    by simp
  from r t ret hp sp ev show ?thesis
    by (intro conjI)
qed

text \<open>
  The sentence of the specification fails when the synthesis call succeeds: with no search
  terms and no hits, the summary is the generated text and not the fallback sentence.
\<close>

theorem empty_terms_no_query_counterexample:
  "reaches_stage3 ex_query
     (ex_env\<lparr>gen_intent := Intent_Parsed ex_parsed_empty,
             gen_synthesis := Synthesis_Text '' Nothing was searched. ''\<rparr>)
   \<and> extracted_terms ex_query
       (ex_env\<lparr>gen_intent := Intent_Parsed ex_parsed_empty,
               gen_synthesis := Synthesis_Text '' Nothing was searched. ''\<rparr>) = []
   \<and> isl (mcp_search ex_query (Some ''u1'')
       (ex_env\<lparr>gen_intent := Intent_Parsed ex_parsed_empty,
               gen_synthesis := Synthesis_Text '' Nothing was searched. ''\<rparr>)) = False
   \<and> algolia_hits (response (projr (mcp_search ex_query (Some ''u1'')
       (ex_env\<lparr>gen_intent := Intent_Parsed ex_parsed_empty,
               gen_synthesis := Synthesis_Text '' Nothing was searched. ''\<rparr>)))) = []
   \<and> final_summary (response (projr (mcp_search ex_query (Some ''u1'')
       (ex_env\<lparr>gen_intent := Intent_Parsed ex_parsed_empty,
               gen_synthesis := Synthesis_Text '' Nothing was searched. ''\<rparr>))))
       = ''Nothing was searched.''
   \<and> final_summary (response (projr (mcp_search ex_query (Some ''u1'')
       (ex_env\<lparr>gen_intent := Intent_Parsed ex_parsed_empty,
               gen_synthesis := Synthesis_Text '' Nothing was searched. ''\<rparr>))))
       \<noteq> ''No relevant entries found for your query.''"
  by code_simp

subsection \<open>No search needed\<close>

text \<open>
  C9. When the Intent Extractor returns \<^verbatim>\<open>is_search\<close> false, the run takes the
  exit after stage 1: it returns the acknowledgment of stage 1 as its summary and
  \<^verbatim>\<open>memory_used\<close> false, with no hits, no call besides the extraction and the memory
  file untouched. The memory check of stage 2 stands before the test of
  \<^verbatim>\<open>is_search\<close> in the source, but it returns no entry, whatever the memory file
  holds, so it does not decide the outcome.
\<close>

theorem no_search_exit:
  assumes "\<not> extracted_is_search query e"
  shows "\<exists>r. mcp_search query user_id e = Inr r
       \<and> final_summary (response r) = stage1_response (response r)
       \<and> stage1_response (response r) = extracted_response query e
       \<and> memory_used (response r) = False
       \<and> algolia_hits (response r) = []
       \<and> events r = [Intent_Call]
       \<and> memory_after r = memory e"
  using assms by (simp add: mcp_search_no_search)

theorem no_search_exit_witness:
  "\<not> extracted_is_search ex_query
       (ex_env\<lparr>gen_intent := Intent_Parsed ex_parsed_no, memory := Log [ex_entry_week]\<rparr>)
   \<and> term_occurs ex_query ex_entry_week
   \<and> isl (mcp_search ex_query None
       (ex_env\<lparr>gen_intent := Intent_Parsed ex_parsed_no, memory := Log [ex_entry_week]\<rparr>)) = False
   \<and> final_summary (response (projr (mcp_search ex_query None
       (ex_env\<lparr>gen_intent := Intent_Parsed ex_parsed_no, memory := Log [ex_entry_week]\<rparr>))))
       = ''Happy to chat!''
   \<and> memory_used (response (projr (mcp_search ex_query None
       (ex_env\<lparr>gen_intent := Intent_Parsed ex_parsed_no, memory := Log [ex_entry_week]\<rparr>))))
       = False
   \<and> events (projr (mcp_search ex_query None
       (ex_env\<lparr>gen_intent := Intent_Parsed ex_parsed_no, memory := Log [ex_entry_week]\<rparr>)))
       = [Intent_Call]"
proof -
  let ?e = "ex_env\<lparr>gen_intent := Intent_Parsed ex_parsed_no, memory := Log [ex_entry_week]\<rparr>"
  have n: "\<not> extracted_is_search ex_query ?e"
    by code_simp
  have o: "term_occurs ex_query ex_entry_week"
    by code_simp
  have a: "extracted_response ex_query ?e = ''Happy to chat!''"
    by code_simp
  from no_search_exit [OF n, of None]
  obtain r where r: "mcp_search ex_query None ?e = Inr r"
      and f: "final_summary (response r) = stage1_response (response r)"
      and s: "stage1_response (response r) = extracted_response ex_query ?e"
      and m: "memory_used (response r) = False"
      and ev: "events r = [Intent_Call]"
    by blast
  from r have ret: "isl (mcp_search ex_query None ?e) = False"
    by simp
  from r f s a have fp: "final_summary (response (projr (mcp_search ex_query None ?e)))
      = ''Happy to chat!''"
    by simp
  from r m have mp: "memory_used (response (projr (mcp_search ex_query None ?e))) = False"
    by simp
  from r ev have evp: "events (projr (mcp_search ex_query None ?e)) = [Intent_Call]"
    by simp
  from n o ret fp mp evp show ?thesis
    by (intro conjI)
qed

subsection \<open>A stored empty search term\<close>

text \<open>
  C10. The program does not do what the specification says here. On a log that holds an
  entry with the empty string among its search terms, the Memory Cache of the
  specification (the helper on the JSON module) returns that entry for a query that has
  nothing to do with it; \<^verbatim>\<open>_check_memory\<close> as the program runs it returns
  \<^verbatim>\<open>None\<close>, because \<^verbatim>\<open>pyjson.load\<close> raises, and the run queries the index and
  calls the synthesis with \<^verbatim>\<open>memory_used\<close> false.
\<close>

theorem empty_term_failing_input:
  "dict_get (mem_search_terms ex_entry_empty_term) [] = [[]]
   \<and> term_occurs ''anything else'' ex_entry_empty_term
   \<and> spec_check_memory (Log [ex_entry_empty_term]) ''anything else'' [''anything'', ''else'']
       = Some ex_entry_empty_term
   \<and> check_memory (Log [ex_entry_empty_term]) ''anything else'' [''anything'', ''else''] = None
   \<and> isl (mcp_search ''anything else'' None
        (ex_env\<lparr>memory := Log [ex_entry_empty_term]\<rparr>)) = False
   \<and> memory_used (response (projr (mcp_search ''anything else'' None
        (ex_env\<lparr>memory := Log [ex_entry_empty_term]\<rparr>)))) = False
   \<and> events (projr (mcp_search ''anything else'' None
        (ex_env\<lparr>memory := Log [ex_entry_empty_term]\<rparr>)))
       = [Intent_Call, Index_Query ''anything'' [], Synthesis_Call]"
  by code_simp

end
